theory Spec2Isabelle
  imports Complex_Main "HOL-Library.Sublist"
begin

section \<open>SpamGuard: the model lifecycle and inference engine of \<open>app/services/ml.py\<close>\<close>

text \<open>
  The class \<open>MLService\<close> is embedded function by function. Python strings are
  \<open>string\<close>; a \<open>char\<close> stands for one code point below 256 (Latin-1), so
  \<open>str.lower\<close> and \<open>str.split\<close> are written out for that range. Exceptions are
  values: a function that can raise returns \<open>pyexc + 'a\<close>, the exception being named by
  its class.
\<close>

subsection \<open>Python strings\<close>

datatype pyexc = PyExc string

abbreviation ValueError :: pyexc where
  "ValueError \<equiv> PyExc ''ValueError''"

abbreviation IndexError :: pyexc where
  "IndexError \<equiv> PyExc ''IndexError''"

text \<open>
  \<open>str.lower\<close> on code points below 256: the letters A to Z and the Latin-1 capitals
  0xC0 to 0xDE, the multiplication sign 0xD7 apart, move up by 32; every other code
  point is its own lower case.
\<close>

definition lower_char :: "char \<Rightarrow> char" where
  "lower_char c =
     (let n = (of_char c :: nat)
      in if (65 \<le> n \<and> n \<le> 90) \<or> (192 \<le> n \<and> n \<le> 222 \<and> n \<noteq> 215)
         then char_of (n + 32) else c)"

definition lower :: "string \<Rightarrow> string" where
  "lower s = map lower_char s"

text \<open>
  \<open>str.isspace\<close> on one code point below 256: tab to carriage return, the four
  separators 0x1C to 0x1F, the space, NEL (0x85) and the no-break space (0xA0).
\<close>

definition isspace :: "char \<Rightarrow> bool" where
  "isspace c =
     (let n = (of_char c :: nat)
      in (9 \<le> n \<and> n \<le> 13) \<or> (28 \<le> n \<and> n \<le> 32) \<or> n = 133 \<or> n = 160)"

text \<open>
  \<open>text.split()\<close> with no argument: the maximal runs of non-whitespace, in order.
  \<open>split_acc w s\<close> scans \<open>s\<close> with the word read so far in \<open>w\<close>.
\<close>

fun split_acc :: "string \<Rightarrow> string \<Rightarrow> string list" where
  "split_acc w [] = (if w = [] then [] else [w])"
| "split_acc w (c # cs) =
     (if isspace c then (if w = [] then split_acc [] cs else w # split_acc [] cs)
      else split_acc (w @ [c]) cs)"

definition split :: "string \<Rightarrow> string list" where
  "split s = split_acc [] s"

text \<open>\<open>sep.join(ws)\<close>.\<close>

fun join :: "string \<Rightarrow> string list \<Rightarrow> string" where
  "join sep [] = []"
| "join sep [w] = w"
| "join sep (w # v # ws) = w @ sep @ join sep (v # ws)"

text \<open>The substring test \<open>k in t\<close>.\<close>

fun str_in :: "string \<Rightarrow> string \<Rightarrow> bool" where
  "str_in k [] = (k = [])"
| "str_in k (c # cs) = (prefix k (c # cs) \<or> str_in k cs)"

text \<open>\<open>str(n)\<close> for a non-negative integer, as an f-string formats \<open>len(...)\<close>.\<close>

definition digit_char :: "nat \<Rightarrow> char" where
  "digit_char d = char_of (48 + d)"

fun str_nat :: "nat \<Rightarrow> string" where
  "str_nat n = (if n < 10 then [digit_char n] else str_nat (n div 10) @ [digit_char (n mod 10)])"

declare str_nat.simps [simp del]

subsection \<open>\<open>_preprocess_text\<close>\<close>

definition preprocess_text :: "string \<Rightarrow> string" where
  "preprocess_text text = join '' '' (split (lower text))"

subsection \<open>\<open>_generate_explanation\<close>\<close>

record explanation =
  keywords_found :: "string list"
  reason :: string

definition spam_keywords :: "string list" where
  "spam_keywords =
     [''buy'', ''win'', ''free'', ''urgent'', ''click'', ''subscribe'', ''viagra'', ''lottery'']"

definition ham_keywords :: "string list" where
  "ham_keywords = [''meeting'', ''hello'', ''thanks'', ''schedule'', ''project'']"

text \<open>
  The \<open>for keyword in ...: if keyword in text_lower: found_keywords.append(keyword)\<close>
  loop, with \<open>found\<close> the list built so far.
\<close>

fun scan_keywords :: "string \<Rightarrow> string list \<Rightarrow> string list \<Rightarrow> string list" where
  "scan_keywords text_lower found [] = found"
| "scan_keywords text_lower found (keyword # rest) =
     (if str_in keyword text_lower
      then scan_keywords text_lower (found @ [keyword]) rest
      else scan_keywords text_lower found rest)"

definition generate_explanation :: "string \<Rightarrow> int \<Rightarrow> explanation" where
  "generate_explanation text prediction =
     (let text_lower = lower text;
          found_keywords =
            (if prediction = 1 then scan_keywords text_lower [] spam_keywords
             else scan_keywords text_lower [] ham_keywords)
      in \<lparr> keywords_found = found_keywords,
           reason = ''Detected '' @ str_nat (length found_keywords) @ '' relevant keywords'' \<rparr>)"

subsection \<open>scikit-learn, the file system and the clock\<close>

text \<open>
  \<open>TfidfVectorizer\<close>, \<open>LogisticRegression\<close> and the four functions of
  \<open>sklearn.metrics\<close> are not part of the repository: the service is given them as
  a parameter. \<open>'v\<close> is a fitted vectorizer, \<open>'m\<close> a fitted classifier, \<open>'x\<close> a
  feature matrix. Each call may raise. \<open>tfidf_fit_transform\<close> is
  \<open>TfidfVectorizer(max_features=5000, stop_words='english').fit_transform\<close>, which
  returns the matrix and leaves the vectorizer fitted; \<open>logreg_fit\<close> is
  \<open>LogisticRegression(random_state=42).fit\<close>.
\<close>

record ('v, 'm, 'x) sklearn =
  tfidf_fit_transform :: "string list \<Rightarrow> pyexc + 'v \<times> 'x"
  tfidf_transform :: "'v \<Rightarrow> string list \<Rightarrow> pyexc + 'x"
  logreg_fit :: "'x \<Rightarrow> int list \<Rightarrow> pyexc + 'm"
  logreg_predict_proba :: "'m \<Rightarrow> 'x \<Rightarrow> pyexc + real list list"
  logreg_predict :: "'m \<Rightarrow> 'x \<Rightarrow> pyexc + int list"
  accuracy_score :: "int list \<Rightarrow> int list \<Rightarrow> pyexc + real"
  precision_score :: "int list \<Rightarrow> int list \<Rightarrow> pyexc + real"
  recall_score :: "int list \<Rightarrow> int list \<Rightarrow> pyexc + real"
  f1_score :: "int list \<Rightarrow> int list \<Rightarrow> pyexc + real"

text \<open>
  The dict that \<open>train_model\<close> pickles. A pickle found in the directory may lack any
  of the keys: \<open>None\<close> is an absent key.
\<close>

type_synonym metrics = "(string \<times> real) list"

record ('v, 'm) model_data =
  md_vectorizer :: "'v option"
  md_model :: "'m option"
  md_metrics :: "metrics option"
  md_training_samples :: "nat option"

text \<open>
  A file of the models directory: what \<open>pickle.load\<close> makes of its bytes (\<open>None\<close>
  when it raises) and the modification time that \<open>stat()\<close> reports. The directory
  lists its entries by name, in the order in which \<open>glob\<close> yields them. A name that
  contains a slash is a path below or outside the directory.
\<close>

record ('v, 'm) pkl_file =
  contents :: "('v, 'm) model_data option"
  st_mtime :: real

type_synonym ('v, 'm) directory = "(string \<times> ('v, 'm) pkl_file) list"


text \<open>\<open>glob("*.pkl")\<close>: the direct children whose name ends in \<open>.pkl\<close>.\<close>

definition is_pkl :: "string \<Rightarrow> bool" where
  "is_pkl n = (suffix ''.pkl'' n \<and> CHR ''/'' \<notin> set n)"

definition glob_pkl :: "('v, 'm) directory \<Rightarrow> ('v, 'm) directory" where
  "glob_pkl d = filter (\<lambda>(n, f). is_pkl n) d"

text \<open>\<open>open(path, 'wb')\<close> followed by a write: the file is created or replaced.\<close>

fun write_file :: "string \<Rightarrow> ('v, 'm) pkl_file \<Rightarrow> ('v, 'm) directory \<Rightarrow> ('v, 'm) directory" where
  "write_file n f [] = [(n, f)]"
| "write_file n f ((k, g) # rest) =
     (if k = n then (n, f) # rest else (k, g) # write_file n f rest)"


definition path_name :: "string \<Rightarrow> string" where
  "path_name p = rev (takeWhile (\<lambda>c. c \<noteq> CHR ''/'') (rev p))"

text \<open>
  \<open>datetime.datetime.now()\<close> and its \<open>strftime("%Y%m%d_%H%M%S")\<close>, for the years
  1000 to 9999.
\<close>

record datetime =
  year :: nat
  month :: nat
  day :: nat
  hour :: nat
  minute :: nat
  second :: nat
  microsecond :: nat

definition zfill :: "nat \<Rightarrow> string \<Rightarrow> string" where
  "zfill w s = replicate (w - length s) CHR ''0'' @ s"

definition strftime :: "datetime \<Rightarrow> string" where
  "strftime t =
     zfill 4 (str_nat (year t)) @ zfill 2 (str_nat (month t)) @ zfill 2 (str_nat (day t))
     @ ''_'' @ zfill 2 (str_nat (hour t)) @ zfill 2 (str_nat (minute t))
     @ zfill 2 (str_nat (second t))"

text \<open>
  What the world decides during one \<open>train_model\<close> call: the wall clock, the
  modification time the file system stamps on a written file, and whether \<open>open\<close> and
  \<open>pickle.dump\<close> go through.
\<close>

datatype write_outcome = WriteOk | OpenRaises pyexc | DumpRaises pyexc

record env =
  now :: datetime
  clock :: real
  outcome :: write_outcome

subsection \<open>The service\<close>

text \<open>
  \<open>self.vectorizer\<close> and \<open>self.model\<close> (\<open>None\<close> until set), and the directory
  \<open>self.models_dir\<close> points to.
\<close>

record ('v, 'm) service =
  models_dir :: "('v, 'm) directory"
  vectorizer :: "'v option"
  model :: "'m option"

text \<open>\<open>max(xs, key=...)\<close> keeps the first of the greatest elements.\<close>

fun max_from :: "('a \<Rightarrow> real) \<Rightarrow> 'a \<Rightarrow> 'a list \<Rightarrow> 'a" where
  "max_from key best [] = best"
| "max_from key best (x # xs) = max_from key (if key best < key x then x else best) xs"

text \<open>Indexing a sequence with a Python integer: a negative index counts from the end.\<close>

definition py_index :: "'a list \<Rightarrow> int \<Rightarrow> pyexc + 'a" where
  "py_index xs i =
     (if 0 \<le> i \<and> i < int (length xs) then Inr (xs ! nat i)
      else if i < 0 \<and> - int (length xs) \<le> i then Inr (xs ! nat (int (length xs) + i))
      else Inl IndexError)"

subsubsection \<open>\<open>_create_default_model\<close>\<close>

definition dummy_texts :: "string list" where
  "dummy_texts =
     [''This is a legitimate message'', ''Buy now cheap viagra'', ''Meeting at 3pm tomorrow'',
      ''Win lottery now!!!'', ''Hello friend'', ''URGENT: Your account is suspended'']"

definition dummy_labels :: "int list" where
  "dummy_labels = [0, 1, 0, 1, 0, 1]"

text \<open>
  An exception of the fit leaves \<open>__init__\<close>, so no service object comes to exist:
  the result is the exception alone.
\<close>

definition create_default_model ::
  "('v, 'm, 'x) sklearn \<Rightarrow> ('v, 'm) service \<Rightarrow> pyexc + ('v, 'm) service" where
  "create_default_model lib st =
     (case tfidf_fit_transform lib dummy_texts of
        Inl e \<Rightarrow> Inl e
      | Inr (v, X) \<Rightarrow>
          (case logreg_fit lib X dummy_labels of
             Inl e \<Rightarrow> Inl e
           | Inr m \<Rightarrow> Inr (st\<lparr>vectorizer := Some v, model := Some m\<rparr>)))"

subsubsection \<open>\<open>_load_latest_model\<close> and \<open>__init__\<close>\<close>

definition latest_file :: "('v, 'm) directory \<Rightarrow> (string \<times> ('v, 'm) pkl_file) option" where
  "latest_file d =
     (case glob_pkl d of
        [] \<Rightarrow> None
      | f # fs \<Rightarrow> Some (max_from (\<lambda>x. st_mtime (snd x)) f fs))"

text \<open>
  Every exception inside the \<open>try\<close> (a pickle that does not load, a missing key)
  ends in \<open>_create_default_model\<close>, which sets both fields again.
\<close>

definition load_latest_model ::
  "('v, 'm, 'x) sklearn \<Rightarrow> ('v, 'm) service \<Rightarrow> pyexc + ('v, 'm) service" where
  "load_latest_model lib st =
     (case latest_file (models_dir st) of
        None \<Rightarrow> create_default_model lib st
      | Some (n, f) \<Rightarrow>
          (case contents f of
             None \<Rightarrow> create_default_model lib st
           | Some model_data \<Rightarrow>
               (case md_vectorizer model_data of
                  None \<Rightarrow> create_default_model lib st
                | Some v \<Rightarrow>
                    (case md_model model_data of
                       None \<Rightarrow> create_default_model lib (st\<lparr>vectorizer := Some v\<rparr>)
                     | Some m \<Rightarrow> Inr (st\<lparr>vectorizer := Some v, model := Some m\<rparr>)))))"


subsubsection \<open>\<open>predict\<close>\<close>

record prediction_result =
  res_prediction :: string
  res_confidence :: real
  res_explanation :: explanation
  res_model_version :: string

text \<open>
  \<open>user_id\<close> and \<open>db\<close> only reach \<open>_log_prediction\<close>, whose body is \<open>pass\<close>; they
  are left out. \<open>predict_proba(X)[0]\<close> and \<open>predict(X)[0]\<close> read the first row of what
  the classifier returns.
\<close>

definition predict ::
  "('v, 'm, 'x) sklearn \<Rightarrow> ('v, 'm) service \<Rightarrow> string \<Rightarrow> string \<Rightarrow> pyexc + prediction_result" where
  "predict lib st text model_version =
     (case vectorizer st of
        None \<Rightarrow> Inl ValueError
      | Some v \<Rightarrow>
     (case model st of
        None \<Rightarrow> Inl ValueError
      | Some m \<Rightarrow>
     (let processed_text = preprocess_text text in
      case tfidf_transform lib v [processed_text] of
        Inl e \<Rightarrow> Inl e
      | Inr X \<Rightarrow>
     (case logreg_predict_proba lib m X of
        Inl e \<Rightarrow> Inl e
      | Inr [] \<Rightarrow> Inl IndexError
      | Inr (prediction_proba # _) \<Rightarrow>
     (case logreg_predict lib m X of
        Inl e \<Rightarrow> Inl e
      | Inr [] \<Rightarrow> Inl IndexError
      | Inr (prediction # _) \<Rightarrow>
     (case py_index prediction_proba prediction of
        Inl e \<Rightarrow> Inl e
      | Inr confidence \<Rightarrow>
          Inr \<lparr> res_prediction = (if prediction = 1 then ''spam'' else ''ham''),
                res_confidence = confidence,
                res_explanation = generate_explanation text prediction,
                res_model_version = model_version \<rparr>))))))"

subsubsection \<open>\<open>train_model\<close>\<close>

record training_example =
  ex_text :: string
  ex_label :: int

record training_report =
  rep_model_name :: string
  rep_metrics :: metrics
  rep_training_samples :: nat

text \<open>The path below the models directory: \<open>if model_name: ... else: ...\<close>.\<close>

definition model_path :: "env \<Rightarrow> string option \<Rightarrow> string" where
  "model_path ev model_name =
     (case model_name of
        Some n \<Rightarrow> (if n \<noteq> [] then n @ ''.pkl'' else ''model_'' @ strftime (now ev) @ ''.pkl'')
      | None \<Rightarrow> ''model_'' @ strftime (now ev) @ ''.pkl'')"

text \<open>
  The evaluation block: the four scores on the training set itself, as the dict
  \<open>model_data['metrics']\<close>.
\<close>

definition evaluate ::
  "('v, 'm, 'x) sklearn \<Rightarrow> int list \<Rightarrow> int list \<Rightarrow> pyexc + metrics" where
  "evaluate lib labels predictions =
     (case accuracy_score lib labels predictions of
        Inl e \<Rightarrow> Inl e
      | Inr accuracy \<Rightarrow>
     (case precision_score lib labels predictions of
        Inl e \<Rightarrow> Inl e
      | Inr precision \<Rightarrow>
     (case recall_score lib labels predictions of
        Inl e \<Rightarrow> Inl e
      | Inr recall \<Rightarrow>
     (case f1_score lib labels predictions of
        Inl e \<Rightarrow> Inl e
      | Inr f1 \<Rightarrow>
          Inr [(''accuracy'', accuracy), (''precision'', precision),
               (''recall'', recall), (''f1'', f1)]))))"

text \<open>
  The fitting block: a new vectorizer and a new classifier fitted on the texts and the
  labels as the caller gave them, then scored.
\<close>

definition fit_and_evaluate ::
  "('v, 'm, 'x) sklearn \<Rightarrow> training_example list \<Rightarrow> pyexc + 'v \<times> 'm \<times> metrics" where
  "fit_and_evaluate lib training_data =
     (let texts = map ex_text training_data;
          labels = map ex_label training_data in
      case tfidf_fit_transform lib texts of
        Inl e \<Rightarrow> Inl e
      | Inr (v, X) \<Rightarrow>
     (case logreg_fit lib X labels of
        Inl e \<Rightarrow> Inl e
      | Inr m \<Rightarrow>
     (case logreg_predict lib m X of
        Inl e \<Rightarrow> Inl e
      | Inr predictions \<Rightarrow>
     (case evaluate lib labels predictions of
        Inl e \<Rightarrow> Inl e
      | Inr ms \<Rightarrow> Inr (v, m, ms)))))"

text \<open>
  The saving block and the update of the current model. The state after the call is
  returned with the result, since an exception leaves the object and the directory as
  they were at the \<open>raise\<close>. \<open>open(..., 'wb')\<close> creates or empties the file before
  \<open>pickle.dump\<close> runs: when the dump raises, what is left does not unpickle.
\<close>

definition train_model ::
  "('v, 'm, 'x) sklearn \<Rightarrow> env \<Rightarrow> ('v, 'm) service \<Rightarrow> training_example list \<Rightarrow> string option
     \<Rightarrow> (pyexc + training_report) \<times> ('v, 'm) service" where
  "train_model lib ev st training_data model_name =
     (case fit_and_evaluate lib training_data of
        Inl e \<Rightarrow> (Inl e, st)
      | Inr (v, m, ms) \<Rightarrow>
     (let model_data = \<lparr> md_vectorizer = Some v, md_model = Some m, md_metrics = Some ms,
                         md_training_samples = Some (length training_data) \<rparr>;
          path = model_path ev model_name in
      case outcome ev of
        OpenRaises e \<Rightarrow> (Inl e, st)
      | DumpRaises e \<Rightarrow>
          (Inl e,
           st\<lparr>models_dir :=
                 write_file path \<lparr>contents = None, st_mtime = clock ev\<rparr> (models_dir st)\<rparr>)
      | WriteOk \<Rightarrow>
          (Inr \<lparr> rep_model_name = path_name path, rep_metrics = ms,
                 rep_training_samples = length training_data \<rparr>,
           st\<lparr>models_dir :=
                 write_file path \<lparr>contents = Some model_data, st_mtime = clock ev\<rparr> (models_dir st),
               vectorizer := Some v, model := Some m\<rparr>)))"

subsubsection \<open>\<open>list_models\<close>\<close>






subsection \<open>A small scikit-learn to run the service on\<close>

text \<open>
  A stand-in for the library, for evaluating the service on concrete inputs. The
  vectorizer is its vocabulary, the words of the fitted texts as they are written; a
  feature row counts each word of the vocabulary in one text. The classifier is one
  integer weight for each word: its count in the texts labelled 1 minus its count in the
  others. As in scikit-learn, an empty vocabulary and a training set of one class are
  rejected with \<open>ValueError\<close>.
\<close>

definition toy_row :: "string list \<Rightarrow> string \<Rightarrow> nat list" where
  "toy_row vocab t = map (\<lambda>w. count_list (split t) w) vocab"

definition toy_fit_transform :: "string list \<Rightarrow> pyexc + string list \<times> nat list list" where
  "toy_fit_transform texts =
     (let vocab = remdups (concat (map split texts))
      in if vocab = [] then Inl ValueError else Inr (vocab, map (toy_row vocab) texts))"

definition toy_weight :: "nat list list \<Rightarrow> int list \<Rightarrow> nat \<Rightarrow> int" where
  "toy_weight X labels j =
     sum_list (map (\<lambda>(r, l). if l = 1 then int (r ! j) else - int (r ! j)) (zip X labels))"

definition toy_fit :: "nat list list \<Rightarrow> int list \<Rightarrow> pyexc + int list" where
  "toy_fit X labels =
     (case X of
        [] \<Rightarrow> Inl ValueError
      | r # _ \<Rightarrow>
          if length (remdups labels) < 2 then Inl ValueError
          else Inr (map (toy_weight X labels) [0..<length r]))"

definition toy_score :: "int list \<Rightarrow> nat list \<Rightarrow> int" where
  "toy_score w r = sum_list (map (\<lambda>(a, c). a * int c) (zip w r))"

definition toy_count :: "int \<Rightarrow> int \<Rightarrow> int list \<Rightarrow> int list \<Rightarrow> real" where
  "toy_count a b labels predictions =
     real (length (filter (\<lambda>(l, p). l = a \<and> p = b) (zip labels predictions)))"

definition toy_sklearn :: "(string list, int list, nat list list) sklearn" where
  "toy_sklearn =
     \<lparr> tfidf_fit_transform = toy_fit_transform,
       tfidf_transform = (\<lambda>vocab texts. Inr (map (toy_row vocab) texts)),
       logreg_fit = toy_fit,
       logreg_predict_proba =
         (\<lambda>w X. Inr (map (\<lambda>r. if 0 < toy_score w r then [1 / 4, 3 / 4] else [3 / 4, 1 / 4]) X)),
       logreg_predict = (\<lambda>w X. Inr (map (\<lambda>r. if 0 < toy_score w r then 1 else 0) X)),
       accuracy_score =
         (\<lambda>ls ps. Inr ((toy_count 1 1 ls ps + toy_count 0 0 ls ps) / real (length ls))),
       precision_score =
         (\<lambda>ls ps. Inr (toy_count 1 1 ls ps / (toy_count 1 1 ls ps + toy_count 0 1 ls ps))),
       recall_score =
         (\<lambda>ls ps. Inr (toy_count 1 1 ls ps / (toy_count 1 1 ls ps + toy_count 1 0 ls ps))),
       f1_score =
         (\<lambda>ls ps. Inr (2 * toy_count 1 1 ls ps
                         / (2 * toy_count 1 1 ls ps + toy_count 0 1 ls ps + toy_count 1 0 ls ps))) \<rparr>"

subsection \<open>The contract of a two-class classifier\<close>


subsection \<open>Sample inputs\<close>

definition toy_service :: "(string list, int list) service" where
  "toy_service = \<lparr> models_dir = [], vectorizer = Some [''win'', ''meeting''], model = Some [1, - 1] \<rparr>"

definition artifact_a :: "(string list, int list) model_data" where
  "artifact_a =
     \<lparr> md_vectorizer = Some [''win''], md_model = Some [1],
       md_metrics = Some [(''accuracy'', 1)], md_training_samples = Some 2 \<rparr>"

definition artifact_b :: "(string list, int list) model_data" where
  "artifact_b =
     \<lparr> md_vectorizer = Some [''meeting''], md_model = Some [- 1],
       md_metrics = None, md_training_samples = None \<rparr>"

text \<open>
  Two directories with the same two files, byte for byte; only the modification times
  differ.
\<close>

definition dir_a_newer :: "(string list, int list) directory" where
  "dir_a_newer =
     [(''a.pkl'', \<lparr> contents = Some artifact_a, st_mtime = 2 \<rparr>),
      (''b.pkl'', \<lparr> contents = Some artifact_b, st_mtime = 1 \<rparr>)]"

definition dir_b_newer :: "(string list, int list) directory" where
  "dir_b_newer =
     [(''a.pkl'', \<lparr> contents = Some artifact_a, st_mtime = 1 \<rparr>),
      (''b.pkl'', \<lparr> contents = Some artifact_b, st_mtime = 2 \<rparr>)]"

definition toy_env :: env where
  "toy_env =
     \<lparr> now = \<lparr> year = 2024, month = 3, day = 7, hour = 9, minute = 5, second = 1,
               microsecond = 0 \<rparr>,
       clock = 100, outcome = WriteOk \<rparr>"

definition toy_examples :: "training_example list" where
  "toy_examples =
     [\<lparr> ex_text = ''Win  LOTTERY now'', ex_label = 1 \<rparr>,
      \<lparr> ex_text = ''Meeting at 3pm'', ex_label = 0 \<rparr>]"

section \<open>Properties\<close>

subsection \<open>Strings and keywords\<close>

lemma str_in_sublist: "str_in k t = sublist k t"
  by (induction t) (simp_all add: sublist_Cons_right)

lemma scan_keywords_filter:
  "scan_keywords t found ks = found @ filter (\<lambda>k. str_in k t) ks"
  by (induction ks arbitrary: found) simp_all

lemma distinct_spam_keywords: "distinct spam_keywords"
  by (simp add: spam_keywords_def)

lemma distinct_ham_keywords: "distinct ham_keywords"
  by (simp add: ham_keywords_def)

text \<open>
  Claim C10. For every text and predicted label, the explanation is a function of the two
  alone: the keywords found are exactly the keywords of the list that belongs to the
  label (the spam list for label 1, the ham list otherwise) that occur as a substring of
  the lower-cased text, in the order of that list and without duplicates; the reason is
  \<open>Detected n relevant keywords\<close> with \<open>n\<close> their number; and the two lists have no
  keyword in common.
\<close>

theorem generate_explanation_keywords:
  "keywords_found (generate_explanation text p) =
     filter (\<lambda>k. sublist k (lower text)) (if p = 1 then spam_keywords else ham_keywords)
   \<and> distinct (keywords_found (generate_explanation text p))
   \<and> reason (generate_explanation text p) =
       ''Detected '' @ str_nat (length (keywords_found (generate_explanation text p)))
         @ '' relevant keywords''
   \<and> set spam_keywords \<inter> set ham_keywords = {}"
proof -
  have disj: "set spam_keywords \<inter> set ham_keywords = {}"
    by (simp add: spam_keywords_def ham_keywords_def)
  show ?thesis
    using disj
    by (simp add: generate_explanation_def Let_def scan_keywords_filter str_in_sublist
        distinct_spam_keywords distinct_ham_keywords)
qed

subsection \<open>Listing the models\<close>







subsection \<open>Prediction\<close>





text \<open>
  Claim C1, as the code has it: \<open>model_version\<close> selects nothing. A call that names a
  version, whatever the models directory holds, gives the result of the call for
  \<open>latest\<close> on the vectorizer and classifier the service holds, with the name copied
  into \<open>model_version\<close>; no lookup is made that could fail.
\<close>

theorem predict_ignores_model_version:
  "predict lib st text model_version =
     map_sum id (\<lambda>r. r\<lparr>res_model_version := model_version\<rparr>)
       (predict lib (st\<lparr>models_dir := d\<rparr>) text ''latest'')"
  by (simp add: predict_def Let_def split: option.splits sum.splits list.splits)

text \<open>
  Against claim C1 as stated: with no file in the models directory, a call that names the
  version \<open>v999\<close> succeeds.
\<close>

theorem predict_unknown_version_succeeds:
  "glob_pkl (models_dir toy_service) = []
   \<and> predict toy_sklearn toy_service ''Win now'' ''v999'' =
       Inr \<lparr> res_prediction = ''spam'', res_confidence = 3 / 4,
             res_explanation = \<lparr> keywords_found = [''win''], reason = ''Detected 1 relevant keywords'' \<rparr>,
             res_model_version = ''v999'' \<rparr>"
  by code_simp

subsection \<open>Training\<close>

lemma map_of_write_file:
  "map_of (write_file n f d) k = (if k = n then Some f else map_of d k)"
  by (induction d) auto

text \<open>
  Claim C5. When \<open>train_model\<close> raises, at the fit, at the scoring, at \<open>open\<close> or at
  \<open>pickle.dump\<close>, the vectorizer and the classifier of the service are the ones it held
  before. When it returns, the write went through, and the pair it holds is the pair in
  the file just written.
\<close>

theorem train_model_write_then_swap:
  assumes "train_model lib ev st training_data model_name = (res, st')"
  shows "case res of
           Inl e \<Rightarrow> vectorizer st' = vectorizer st \<and> model st' = model st
         | Inr rep \<Rightarrow>
             outcome ev = WriteOk
             \<and> (\<exists>v m ms. vectorizer st' = Some v \<and> model st' = Some m
                  \<and> map_of (models_dir st') (model_path ev model_name) =
                      Some \<lparr> contents = Some \<lparr> md_vectorizer = Some v, md_model = Some m,
                                               md_metrics = Some ms,
                                               md_training_samples = Some (length training_data) \<rparr>,
                             st_mtime = clock ev \<rparr>)"
  using assms
  by (auto simp: train_model_def Let_def map_of_write_file
      split: sum.splits write_outcome.splits prod.splits)

theorem train_model_write_then_swap_witness:
  "fst (train_model toy_sklearn (toy_env\<lparr>outcome := DumpRaises (PyExc ''OSError'')\<rparr>)
          toy_service toy_examples None) = Inl (PyExc ''OSError'')
   \<and> vectorizer (snd (train_model toy_sklearn (toy_env\<lparr>outcome := DumpRaises (PyExc ''OSError'')\<rparr>)
          toy_service toy_examples None)) = vectorizer toy_service
   \<and> model (snd (train_model toy_sklearn (toy_env\<lparr>outcome := DumpRaises (PyExc ''OSError'')\<rparr>)
          toy_service toy_examples None)) = model toy_service"
proof -
  let ?t = "train_model toy_sklearn (toy_env\<lparr>outcome := DumpRaises (PyExc ''OSError'')\<rparr>)
          toy_service toy_examples None"
  have e: "fst ?t = Inl (PyExc ''OSError'')"
    by code_simp
  have p: "?t = (fst ?t, snd ?t)"
    by simp
  from train_model_write_then_swap [OF p] e show ?thesis
    by simp
qed


lemma fit_and_evaluate_Inl:
  "fit_and_evaluate lib training_data = Inl e \<longleftrightarrow>
     tfidf_fit_transform lib (map ex_text training_data) = Inl e
     \<or> (\<exists>v X. tfidf_fit_transform lib (map ex_text training_data) = Inr (v, X)
          \<and> (logreg_fit lib X (map ex_label training_data) = Inl e
             \<or> (\<exists>m. logreg_fit lib X (map ex_label training_data) = Inr m
                  \<and> (logreg_predict lib m X = Inl e
                     \<or> (\<exists>predictions. logreg_predict lib m X = Inr predictions
                          \<and> evaluate lib (map ex_label training_data) predictions = Inl e)))))"
  by (auto simp: fit_and_evaluate_def Let_def split: sum.splits prod.splits)

lemma train_model_Inl:
  "fst (train_model lib ev st training_data model_name) = Inl e \<longleftrightarrow>
     fit_and_evaluate lib training_data = Inl e
     \<or> ((\<exists>r. fit_and_evaluate lib training_data = Inr r)
         \<and> (outcome ev = OpenRaises e \<or> outcome ev = DumpRaises e))"
  by (auto simp: train_model_def Let_def split: sum.splits write_outcome.splits prod.splits)

text \<open>
  Claim C3, as the code has it: \<open>train_model\<close> checks nothing about the training set
  itself. It raises exactly when, and with the exception that, the fitting and scoring
  raise or the write raises; and the fitting and scoring raise exactly when
  \<open>fit_transform\<close> on the texts, \<open>fit\<close> on the labels, \<open>predict\<close> or a score does,
  in this order. An empty set or a set of one class is rejected only by the library, with
  the library's exception.
\<close>

theorem train_model_raises_what_the_library_raises:
  "(fst (train_model lib ev st training_data model_name) = Inl e \<longleftrightarrow>
      fit_and_evaluate lib training_data = Inl e
      \<or> ((\<exists>r. fit_and_evaluate lib training_data = Inr r)
          \<and> (outcome ev = OpenRaises e \<or> outcome ev = DumpRaises e)))
   \<and> (fit_and_evaluate lib training_data = Inl e \<longleftrightarrow>
        tfidf_fit_transform lib (map ex_text training_data) = Inl e
        \<or> (\<exists>v X. tfidf_fit_transform lib (map ex_text training_data) = Inr (v, X)
             \<and> (logreg_fit lib X (map ex_label training_data) = Inl e
                \<or> (\<exists>m. logreg_fit lib X (map ex_label training_data) = Inr m
                     \<and> (logreg_predict lib m X = Inl e
                        \<or> (\<exists>predictions. logreg_predict lib m X = Inr predictions
                             \<and> evaluate lib (map ex_label training_data) predictions = Inl e))))))"
  using train_model_Inl [of lib ev st training_data model_name e]
    fit_and_evaluate_Inl [of lib training_data e]
  by blast

text \<open>
  Against claim C3 as stated: on the empty training set, and on a set whose two examples
  are both labelled spam, the call fails with the \<open>ValueError\<close> of the library, which is
  not \<open>InsufficientDataError\<close>.
\<close>

theorem train_model_empty_or_one_class_raises_ValueError:
  "fst (train_model toy_sklearn toy_env toy_service [] None) = Inl ValueError
   \<and> fst (train_model toy_sklearn toy_env toy_service
            [\<lparr> ex_text = ''Win now'', ex_label = 1 \<rparr>, \<lparr> ex_text = ''Buy now'', ex_label = 1 \<rparr>] None)
       = Inl ValueError
   \<and> ValueError \<noteq> PyExc ''InsufficientDataError''"
  by code_simp




subsection \<open>Loading the latest model\<close>

lemma max_from_mem: "max_from key b xs \<in> set (b # xs)"
  by (induction xs arbitrary: b) auto

lemma max_from_ge_start: "key b \<le> key (max_from key b xs)"
proof (induction xs arbitrary: b)
  case Nil
  show ?case by simp
next
  case (Cons x xs)
  show ?case
  proof (cases "key b < key x")
    case True
    with Cons [of x] show ?thesis by simp
  next
    case False
    with Cons [of b] show ?thesis by simp
  qed
qed

lemma max_from_greatest: "x \<in> set (b # xs) \<Longrightarrow> key x \<le> key (max_from key b xs)"
proof (induction xs arbitrary: b)
  case Nil
  then show ?case by simp
next
  case (Cons y ys)
  let ?b = "if key b < key y then y else b"
  have start: "key ?b \<le> key (max_from key ?b ys)"
    by (rule max_from_ge_start)
  from Cons.prems consider "x = b" | "x = y" | "x \<in> set ys" by auto
  then show ?case
  proof cases
    case 1
    with start show ?thesis by (auto split: if_splits)
  next
    case 2
    with start show ?thesis by (auto split: if_splits)
  next
    case 3
    then have "x \<in> set (?b # ys)" by simp
    from Cons.IH [OF this] show ?thesis by simp
  qed
qed

text \<open>
  Claim C4, as the code has it: when the directory holds a \<open>*.pkl\<close> file, the file
  selected is one of them whose modification time no other exceeds, and when it unpickles
  with a vectorizer and a classifier, these become the current model. Nothing stored
  inside a file takes part in the selection.
\<close>

theorem load_latest_model_by_mtime:
  assumes "glob_pkl (models_dir st) \<noteq> []"
  shows "\<exists>n f. latest_file (models_dir st) = Some (n, f)
           \<and> (n, f) \<in> set (glob_pkl (models_dir st))
           \<and> (\<forall>(k, g) \<in> set (glob_pkl (models_dir st)). st_mtime g \<le> st_mtime f)
           \<and> (\<forall>md v m. contents f = Some md \<and> md_vectorizer md = Some v \<and> md_model md = Some m
                 \<longrightarrow> load_latest_model lib st = Inr (st\<lparr>vectorizer := Some v, model := Some m\<rparr>))"
proof -
  from assms obtain x xs where g: "glob_pkl (models_dir st) = x # xs"
    by (cases "glob_pkl (models_dir st)") auto
  let ?best = "max_from (\<lambda>x. st_mtime (snd x)) x xs"
  have l: "latest_file (models_dir st) = Some ?best"
    by (simp add: latest_file_def g)
  have mem: "?best \<in> set (glob_pkl (models_dir st))"
    unfolding g by (rule max_from_mem)
  have gr: "\<forall>y \<in> set (glob_pkl (models_dir st)). st_mtime (snd y) \<le> st_mtime (snd ?best)"
    unfolding g using max_from_greatest [of _ x xs "\<lambda>x. st_mtime (snd x)"] by blast
  have ld: "\<forall>md v m. contents (snd ?best) = Some md \<and> md_vectorizer md = Some v \<and> md_model md = Some m
                 \<longrightarrow> load_latest_model lib st = Inr (st\<lparr>vectorizer := Some v, model := Some m\<rparr>)"
    by (auto simp: load_latest_model_def l split: prod.splits)
  obtain n f where nf: "?best = (n, f)" by (cases ?best)
  from l mem gr ld show ?thesis
    unfolding nf by (intro exI [of _ n] exI [of _ f]) auto
qed


theorem load_latest_model_by_mtime_witness:
  "glob_pkl (models_dir (toy_service\<lparr>models_dir := dir_a_newer\<rparr>)) \<noteq> []
   \<and> load_latest_model toy_sklearn (toy_service\<lparr>models_dir := dir_a_newer\<rparr>) =
       Inr (toy_service\<lparr>models_dir := dir_a_newer, vectorizer := Some [''win''], model := Some [1]\<rparr>)"
proof -
  let ?st = "toy_service\<lparr>models_dir := dir_a_newer\<rparr>"
  have ne: "glob_pkl (models_dir ?st) \<noteq> []"
    by code_simp
  have lf: "latest_file (models_dir ?st) = Some (''a.pkl'', \<lparr> contents = Some artifact_a, st_mtime = 2 \<rparr>)"
    by code_simp
  from load_latest_model_by_mtime [OF ne, of toy_sklearn] obtain n f
    where sel: "latest_file (models_dir ?st) = Some (n, f)"
      and ld: "\<forall>md v m. contents f = Some md \<and> md_vectorizer md = Some v \<and> md_model md = Some m
                 \<longrightarrow> load_latest_model toy_sklearn ?st = Inr (?st\<lparr>vectorizer := Some v, model := Some m\<rparr>)"
    by blast
  from sel lf have f: "f = \<lparr> contents = Some artifact_a, st_mtime = 2 \<rparr>"
    by simp
  have "contents f = Some artifact_a \<and> md_vectorizer artifact_a = Some [''win'']
        \<and> md_model artifact_a = Some [1]"
    by (simp add: f artifact_a_def)
  with ld have "load_latest_model toy_sklearn ?st = Inr (?st\<lparr>vectorizer := Some [''win''], model := Some [1]\<rparr>)"
    by blast
  with ne show ?thesis by simp
qed

text \<open>
  Against claim C4 as stated: two directories that hold the same files with the same
  contents and differ in the modification times alone give different current models.
\<close>

theorem latest_model_follows_file_times:
  "map (\<lambda>(n, f). (n, contents f)) dir_a_newer = map (\<lambda>(n, f). (n, contents f)) dir_b_newer
   \<and> map_sum id vectorizer (load_latest_model toy_sklearn (toy_service\<lparr>models_dir := dir_a_newer\<rparr>))
       = Inr (Some [''win''])
   \<and> map_sum id vectorizer (load_latest_model toy_sklearn (toy_service\<lparr>models_dir := dir_b_newer\<rparr>))
       = Inr (Some [''meeting''])"
  by code_simp






subsection \<open>Normalisation of the texts\<close>


end
